theory Spec2Isabelle
  imports Main
begin

section \<open>The application module \<open>server/app/app.py\<close>\<close>

text \<open>
  The module consists of three statements, executed once, top to bottom, when it is
  imported:
  \<^verbatim>\<open>
  app = FastAPI(middleware=[
      Middleware(CORSMiddleware, allow_origins=["*"], allow_methods=["*"], allow_headers=["*"])
  ])
  app.mount("/static", StaticFiles(directory="app/static"), name="static")
  templates = Jinja2Templates(directory="app/templates")
  \<close>
  Everything the statements call (\<open>FastAPI\<close>, \<open>StaticFiles\<close>, \<open>mount\<close>,
  \<open>Jinja2Templates\<close>) is imported from the web framework and is not part of the module.
  The model therefore takes the framework as a parameter: a record of the four operations
  the module calls, each of which may raise. What the module itself fixes is which
  operations are called, in which order, with which arguments, and what is bound to the
  two module-level names \<open>app\<close> and \<open>templates\<close>.
\<close>

subsection \<open>Values and errors\<close>

text \<open>
  An exception ends the import. \<open>NameError\<close> is what Python raises when a statement reads
  a module-level name that is not bound; \<open>Raised\<close> is any exception coming out of a
  framework call.
\<close>

datatype error = NameError string | Raised string

text \<open>
  \<open>Middleware(cls, **kwargs)\<close> is a descriptor: the middleware class and the keyword
  arguments it will be built with. All keyword arguments of the module are lists of
  strings; the association list keeps them in the order written.
\<close>

record Middleware =
  cls :: string
  kwargs :: "(string \<times> string list) list"

text \<open>
  The process environment at import time. The filesystem is kept abstract: the module
  never inspects it, it only hands directory names to the framework.
\<close>

record 'fs world =
  filesystem :: 'fs
  environ :: "(string \<times> string) list"
  argv :: "string list"

text \<open>
  The framework operations the module calls. \<open>'a\<close> is the type of application objects,
  \<open>'s\<close> of static-file applications, \<open>'t\<close> of template renderers. The two constructors
  that take a directory may look at the filesystem. \<open>mount\<close> mutates the application in
  place in Python; here it returns the updated application.
\<close>

record ('fs, 'a, 's, 't) framework =
  FastAPI :: "Middleware list \<Rightarrow> error + 'a"
  StaticFiles :: "'fs \<Rightarrow> string \<Rightarrow> error + 's"
  mount :: "'a \<Rightarrow> string \<Rightarrow> 's \<Rightarrow> string \<Rightarrow> error + 'a"
  Jinja2Templates :: "'fs \<Rightarrow> string \<Rightarrow> error + 't"

text \<open>The module's global namespace: the two names the module binds.\<close>

record ('a, 't) namespace =
  app :: "'a option"
  templates :: "'t option"

definition empty_namespace :: "('a, 't) namespace" where
  "empty_namespace = \<lparr>app = None, templates = None\<rparr>"

subsection \<open>The three statements\<close>

text \<open>The middleware descriptor of lines 7 to 9.\<close>

definition cors_middleware :: Middleware where
  "cors_middleware =
     \<lparr>cls = ''CORSMiddleware'',
      kwargs = [(''allow_origins'', [''*'']),
                (''allow_methods'', [''*'']),
                (''allow_headers'', [''*''])]\<rparr>"

text \<open>Lines 7 to 9: \<open>app = FastAPI(middleware=[Middleware(...)])\<close>.\<close>

definition assign_app ::
  "('fs, 'a, 's, 't) framework \<Rightarrow> ('a, 't) namespace \<Rightarrow> error + ('a, 't) namespace" where
  "assign_app fw ns =
     (case FastAPI fw [cors_middleware] of
        Inl e \<Rightarrow> Inl e
      | Inr a \<Rightarrow> Inr (ns\<lparr>app := Some a\<rparr>))"

text \<open>
  Line 11: \<open>app.mount("/static", StaticFiles(directory="app/static"), name="static")\<close>.
  Python looks \<open>app\<close> up first, then evaluates the arguments, then calls \<open>mount\<close>.
\<close>

definition mount_static ::
  "('fs, 'a, 's, 't) framework \<Rightarrow> 'fs world \<Rightarrow> ('a, 't) namespace \<Rightarrow> error + ('a, 't) namespace" where
  "mount_static fw w ns =
     (case app ns of
        None \<Rightarrow> Inl (NameError ''app'')
      | Some a \<Rightarrow>
          (case StaticFiles fw (filesystem w) ''app/static'' of
             Inl e \<Rightarrow> Inl e
           | Inr s \<Rightarrow>
               (case mount fw a ''/static'' s ''static'' of
                  Inl e \<Rightarrow> Inl e
                | Inr a' \<Rightarrow> Inr (ns\<lparr>app := Some a'\<rparr>))))"

text \<open>Line 12: \<open>templates = Jinja2Templates(directory="app/templates")\<close>.\<close>

definition assign_templates ::
  "('fs, 'a, 's, 't) framework \<Rightarrow> 'fs world \<Rightarrow> ('a, 't) namespace \<Rightarrow> error + ('a, 't) namespace" where
  "assign_templates fw w ns =
     (case Jinja2Templates fw (filesystem w) ''app/templates'' of
        Inl e \<Rightarrow> Inl e
      | Inr t \<Rightarrow> Inr (ns\<lparr>templates := Some t\<rparr>))"

text \<open>Importing the module: the three statements in order, from the empty namespace.\<close>

definition module_init ::
  "('fs, 'a, 's, 't) framework \<Rightarrow> 'fs world \<Rightarrow> error + ('a, 't) namespace" where
  "module_init fw w =
     (case assign_app fw empty_namespace of
        Inl e \<Rightarrow> Inl e
      | Inr ns1 \<Rightarrow>
          (case mount_static fw w ns1 of
             Inl e \<Rightarrow> Inl e
           | Inr ns2 \<Rightarrow> assign_templates fw w ns2))"

subsection \<open>A framework that records its arguments\<close>

text \<open>
  To read off what the module asks of the framework, \<open>recording\<close> is the framework that
  checks nothing, never raises, and builds objects that are exactly the arguments
  received. It stands for no real framework; it makes the module's calls visible and
  lets the module run on concrete inputs.
\<close>

datatype recorded_static = RecordedStaticFiles string

datatype recorded_templates = RecordedJinja2Templates string

record recorded_app =
  recorded_middleware :: "Middleware list"
  recorded_mounts :: "(string \<times> recorded_static \<times> string) list"

definition recording :: "('fs, recorded_app, recorded_static, recorded_templates) framework" where
  "recording =
     \<lparr>FastAPI = (\<lambda>mws. Inr \<lparr>recorded_middleware = mws, recorded_mounts = []\<rparr>),
      StaticFiles = (\<lambda>fs d. Inr (RecordedStaticFiles d)),
      mount = (\<lambda>a p s n. Inr (a\<lparr>recorded_mounts := recorded_mounts a @ [(p, s, n)]\<rparr>)),
      Jinja2Templates = (\<lambda>fs d. Inr (RecordedJinja2Templates d))\<rparr>"

section \<open>Properties\<close>

subsection \<open>What the module passes to the framework\<close>

lemma cors_middleware_options:
  "map fst (kwargs cors_middleware) = [''allow_origins'', ''allow_methods'', ''allow_headers'']"
  by (simp add: cors_middleware_def)

lemma cors_middleware_wildcards:
  "map snd (kwargs cors_middleware) = [[''*''], [''*''], [''*'']]"
  by (simp add: cors_middleware_def)

lemma module_init_recording:
  "module_init recording w =
     Inr \<lparr>app = Some \<lparr>recorded_middleware = [cors_middleware],
                       recorded_mounts = [(''/static'', RecordedStaticFiles ''app/static'', ''static'')]\<rparr>,
          templates = Some (RecordedJinja2Templates ''app/templates'')\<rparr>"
  by (simp add: module_init_def assign_app_def mount_static_def assign_templates_def
      recording_def empty_namespace_def)

subsection \<open>The template renderer and the application handle\<close>

text \<open>
  Claim C10. Constructing the template renderer leaves the application handle
  unchanged. Line 12 calls \<open>Jinja2Templates\<close> with a directory name only, never with the
  application, and binds the result to the separate name \<open>templates\<close>: when the statement
  succeeds, the namespace after it differs from the namespace before it in the binding
  of \<open>templates\<close> alone, so the application handle bound to \<open>app\<close> is the one that was there
  before, whatever the framework and the world.
\<close>

theorem assign_templates_frame:
  "assign_templates fw w ns = Inr ns' \<Longrightarrow>
     app ns' = app ns \<and> ns' = ns\<lparr>templates := templates ns'\<rparr>"
  by (auto simp: assign_templates_def split: sum.splits)

theorem assign_templates_frame_witness:
  "assign_templates recording
     \<lparr>filesystem = [''app/static'', ''app/templates''], environ = [], argv = []\<rparr>
     \<lparr>app = Some \<lparr>recorded_middleware = [cors_middleware],
                  recorded_mounts = [(''/static'', RecordedStaticFiles ''app/static'', ''static'')]\<rparr>,
      templates = None\<rparr>
   = Inr \<lparr>app = Some \<lparr>recorded_middleware = [cors_middleware],
                        recorded_mounts = [(''/static'', RecordedStaticFiles ''app/static'', ''static'')]\<rparr>,
          templates = Some (RecordedJinja2Templates ''app/templates'')\<rparr>
   \<and> app \<lparr>app = Some \<lparr>recorded_middleware = [cors_middleware],
                        recorded_mounts = [(''/static'', RecordedStaticFiles ''app/static'', ''static'')]\<rparr>,
           templates = Some (RecordedJinja2Templates ''app/templates'')\<rparr>
     = Some \<lparr>recorded_middleware = [cors_middleware],
             recorded_mounts = [(''/static'', RecordedStaticFiles ''app/static'', ''static'')]\<rparr>"
proof -
  have run: "assign_templates recording
     \<lparr>filesystem = [''app/static'', ''app/templates''], environ = [], argv = []\<rparr>
     \<lparr>app = Some \<lparr>recorded_middleware = [cors_middleware],
                  recorded_mounts = [(''/static'', RecordedStaticFiles ''app/static'', ''static'')]\<rparr>,
      templates = None\<rparr>
   = Inr \<lparr>app = Some \<lparr>recorded_middleware = [cors_middleware],
                        recorded_mounts = [(''/static'', RecordedStaticFiles ''app/static'', ''static'')]\<rparr>,
          templates = Some (RecordedJinja2Templates ''app/templates'')\<rparr>"
    by (simp add: assign_templates_def recording_def)
  show ?thesis
    using run assign_templates_frame [OF run] by simp
qed

end
